theory Spec2Isabelle
  imports Complex_Main
begin

section \<open>Python values carried by raw events\<close>

text \<open>
  The params of a raw event are untyped values read from the event collections.
  \<open>PNum\<close> stands for a float, a Decimal or a Decimal128 holding a finite number,
  \<open>PInt\<close> for an int (at most 64 bits in a stored document, so within the range
  of a float). Floats are modelled by exact rationals: rounding, infinities and NaN
  are outside the model, and the literal 0.001 is the rational 1/1000.
\<close>

datatype pyval =
    PNone
  | PBool bool
  | PInt int
  | PNum rat
  | PStr string
  | PList "pyval list"
  | PDict "(string \<times> pyval) list"

datatype py_exc = ValueError | TypeError | IndexError | KeyError | StoreError

text \<open>
  The builtins whose results the model does not compute are parameters:
  \<open>float_of_str s\<close> is Python's \<open>float(s)\<close> on a str (None when it raises
  ValueError), \<open>str_of_obj v\<close> is \<open>str(v)\<close> on a value that is not a str, and
  \<open>utcnow\<close> is the value of \<open>datetime.utcnow()\<close>.
\<close>

record pyenv =
  float_of_str :: "string \<Rightarrow> rat option"
  str_of_obj :: "pyval \<Rightarrow> string"
  utcnow :: pyval

definition py_str :: "pyenv \<Rightarrow> pyval \<Rightarrow> string" where
  "py_str env v = (case v of PStr s \<Rightarrow> s | _ \<Rightarrow> str_of_obj env v)"

definition py_bool :: "pyval \<Rightarrow> bool" where
  "py_bool v = (case v of
       PNone \<Rightarrow> False
     | PBool b \<Rightarrow> b
     | PInt n \<Rightarrow> n \<noteq> 0
     | PNum r \<Rightarrow> r \<noteq> 0
     | PStr s \<Rightarrow> s \<noteq> []
     | PList xs \<Rightarrow> xs \<noteq> []
     | PDict kvs \<Rightarrow> kvs \<noteq> [])"

text \<open>\<open>a or b\<close> on Python values.\<close>

definition py_or :: "pyval \<Rightarrow> pyval \<Rightarrow> pyval" where
  "py_or a b = (if py_bool a then a else b)"

text \<open>\<open>params[i]\<close> for a literal index \<open>i \<ge> 0\<close>.\<close>

definition py_index :: "pyval \<Rightarrow> nat \<Rightarrow> py_exc + pyval" where
  "py_index v i = (case v of
       PList xs \<Rightarrow> (if i < length xs then Inr (xs ! i) else Inl IndexError)
     | PStr s \<Rightarrow> (if i < length s then Inr (PStr [s ! i]) else Inl IndexError)
     | PDict kvs \<Rightarrow> Inl KeyError
     | _ \<Rightarrow> Inl TypeError)"

section \<open>utils.py\<close>

definition safe_decimal_to_float :: "pyenv \<Rightarrow> pyval \<Rightarrow> py_exc + rat" where
  "safe_decimal_to_float env v = (case v of
       PNum r \<Rightarrow> Inr r
     | PInt n \<Rightarrow> Inr (of_int n)
     | PBool b \<Rightarrow> Inr (if b then 1 else 0)
     | PStr s \<Rightarrow> (case float_of_str env s of None \<Rightarrow> Inl ValueError | Some r \<Rightarrow> Inr r)
     | _ \<Rightarrow> Inl TypeError)"

fun replace_slash :: "string \<Rightarrow> string" where
  "replace_slash [] = []"
| "replace_slash (c # cs) = (if c = CHR ''/'' then CHR ''-'' else c) # replace_slash cs"

text \<open>Every caller passes \<open>str(...)\<close>, so the argument is a str.\<close>

definition normalize_pair :: "string \<Rightarrow> string" where
  "normalize_pair pair = replace_slash pair"

definition extract_timestamp :: "pyenv \<Rightarrow> pyval \<Rightarrow> pyval" where
  "extract_timestamp env order_time = (case order_time of
       PDict kvs \<Rightarrow> (case map_of kvs ''timep'' of
                       Some t \<Rightarrow> t
                     | None \<Rightarrow> PStr (py_str env order_time))
     | PStr s \<Rightarrow> PStr s
     | _ \<Rightarrow> PStr (py_str env order_time))"

datatype reason =
    Not_a_list
  | Too_few_parameters nat
  | Invalid_parameter_types py_exc
  | Account_empty
  | Maker_empty
  | Taker_empty
  | Order_id_empty
  | Amount_not_positive
  | Price_not_positive
  | Pair_empty
  | Dollar_value_not_positive
  | Fee_negative
  | Token_returned_empty
  | Amount_negative

text \<open>A validator returns the pair \<open>(is_valid, error_msg)\<close>; the message is a \<open>reason\<close>.\<close>

type_synonym verdict = "bool \<times> reason option"

definition place_checks :: "string \<Rightarrow> string \<Rightarrow> rat \<Rightarrow> rat \<Rightarrow> string \<Rightarrow> rat \<Rightarrow> verdict" where
  "place_checks account order_id amount price pair dollar_value =
     (if account = [] then (False, Some Account_empty)
      else if order_id = [] then (False, Some Order_id_empty)
      else if amount \<le> 0 then (False, Some Amount_not_positive)
      else if price \<le> 0 then (False, Some Price_not_positive)
      else if pair = [] then (False, Some Pair_empty)
      else if dollar_value \<le> 0 then (False, Some Dollar_value_not_positive)
      else (True, None))"

definition validate_place_order_params :: "pyenv \<Rightarrow> pyval \<Rightarrow> verdict" where
  "validate_place_order_params env params = (case params of
       PList ps \<Rightarrow>
         (if length ps < 8 then (False, Some (Too_few_parameters (length ps)))
          else case safe_decimal_to_float env (ps ! 2) of
            Inl e \<Rightarrow> (False, Some (Invalid_parameter_types e))
          | Inr amount \<Rightarrow> (case safe_decimal_to_float env (ps ! 3) of
            Inl e \<Rightarrow> (False, Some (Invalid_parameter_types e))
          | Inr price \<Rightarrow> (case safe_decimal_to_float env (ps ! 7) of
            Inl e \<Rightarrow> (False, Some (Invalid_parameter_types e))
          | Inr dollar_value \<Rightarrow>
              place_checks (py_str env (ps ! 0)) (py_str env (ps ! 1)) amount price
                (py_str env (ps ! 6)) dollar_value)))
     | _ \<Rightarrow> (False, Some Not_a_list))"

definition match_checks ::
  "string \<Rightarrow> string \<Rightarrow> string \<Rightarrow> rat \<Rightarrow> rat \<Rightarrow> string \<Rightarrow> rat \<Rightarrow> rat \<Rightarrow> verdict" where
  "match_checks maker taker order_id amount price pair dollar_value fee =
     (if maker = [] then (False, Some Maker_empty)
      else if taker = [] then (False, Some Taker_empty)
      else if order_id = [] then (False, Some Order_id_empty)
      else if amount \<le> 0 then (False, Some Amount_not_positive)
      else if price \<le> 0 then (False, Some Price_not_positive)
      else if pair = [] then (False, Some Pair_empty)
      else if dollar_value \<le> 0 then (False, Some Dollar_value_not_positive)
      else if fee < 0 then (False, Some Fee_negative)
      else (True, None))"

definition validate_match_order_params :: "pyenv \<Rightarrow> pyval \<Rightarrow> verdict" where
  "validate_match_order_params env params = (case params of
       PList ps \<Rightarrow>
         (if length ps < 10 then (False, Some (Too_few_parameters (length ps)))
          else case safe_decimal_to_float env (ps ! 3) of
            Inl e \<Rightarrow> (False, Some (Invalid_parameter_types e))
          | Inr amount \<Rightarrow> (case safe_decimal_to_float env (ps ! 4) of
            Inl e \<Rightarrow> (False, Some (Invalid_parameter_types e))
          | Inr price \<Rightarrow> (case safe_decimal_to_float env (ps ! 8) of
            Inl e \<Rightarrow> (False, Some (Invalid_parameter_types e))
          | Inr dollar_value \<Rightarrow> (case safe_decimal_to_float env (ps ! 9) of
            Inl e \<Rightarrow> (False, Some (Invalid_parameter_types e))
          | Inr fee \<Rightarrow>
              match_checks (py_str env (ps ! 0)) (py_str env (ps ! 1)) (py_str env (ps ! 2))
                amount price (py_str env (ps ! 7)) dollar_value fee))))
     | _ \<Rightarrow> (False, Some Not_a_list))"

definition cancel_checks :: "string \<Rightarrow> string \<Rightarrow> string \<Rightarrow> rat \<Rightarrow> verdict" where
  "cancel_checks account order_id token_returned amount =
     (if account = [] then (False, Some Account_empty)
      else if order_id = [] then (False, Some Order_id_empty)
      else if token_returned = [] then (False, Some Token_returned_empty)
      else if amount < 0 then (False, Some Amount_negative)
      else (True, None))"

definition validate_cancel_order_params :: "pyenv \<Rightarrow> pyval \<Rightarrow> verdict" where
  "validate_cancel_order_params env params = (case params of
       PList ps \<Rightarrow>
         (if length ps < 4 then (False, Some (Too_few_parameters (length ps)))
          else case safe_decimal_to_float env (ps ! 3) of
            Inl e \<Rightarrow> (False, Some (Invalid_parameter_types e))
          | Inr amount \<Rightarrow>
              cancel_checks (py_str env (ps ! 0)) (py_str env (ps ! 1)) (py_str env (ps ! 2))
                amount)
     | _ \<Rightarrow> (False, Some Not_a_list))"


section \<open>Documents of the orders and trades collections\<close>

text \<open>
  An order document has the fields of \<open>order_data\<close> in
  \<open>process_place_order_event\<close>; every field is present, so the defaults of
  \<open>existing_order.get\<close> are never taken. \<open>amount\<close> is the remaining amount.
  The status is one of the strings \<open>active\<close>, \<open>partially_filled\<close>,
  \<open>filled\<close>, \<open>cancelled\<close>.
\<close>

record order =
  orderId :: string
  account :: string
  pair :: string
  originalAmount :: rat
  amount :: rat
  filledAmount :: rat
  price :: rat
  isAsk :: bool
  orderType :: string
  orderTime :: pyval
  height :: int
  blockTime :: pyval
  txId :: pyval
  status :: string
  fillPercentage :: rat
  averageFillPrice :: rat
  totalFillValue :: rat
  totalDollarValue :: rat
  totalFees :: rat
  numberOfFills :: int
  lastFillTime :: pyval
  lastFillHeight :: "int option"
  createdAt :: pyval
  lastUpdated :: int
  cancelledAt :: pyval
  cancelReason :: "string option"
  tokenReturned :: "string option"
  amountReturned :: "rat option"

text \<open>A trade document (\<open>trade_data\<close>); its fields carry the prefix \<open>t_\<close>.\<close>

record trade =
  t_orderId :: string
  t_pair :: string
  t_maker :: string
  t_taker :: string
  t_makerAccount :: string
  t_takerAccount :: string
  t_amount :: rat
  t_price :: rat
  t_dollarValue :: rat
  t_fee :: rat
  t_isAsk :: bool
  t_orderType :: string
  t_tradeTime :: pyval
  t_height :: int
  t_blockTime :: pyval
  t_txId :: pyval
  t_tradeValue :: rat
  t_netValue :: rat
  t_createdAt :: pyval

text \<open>The \<open>$set\<close> document of a MATCH (\<open>order_update\<close> at lines 126-139).\<close>

record match_update =
  m_amount :: rat
  m_filledAmount :: rat
  m_fillPercentage :: rat
  m_averageFillPrice :: rat
  m_totalFillValue :: rat
  m_totalDollarValue :: rat
  m_totalFees :: rat
  m_numberOfFills :: int
  m_lastFillTime :: pyval
  m_lastFillHeight :: int
  m_status :: string
  m_lastUpdated :: int

text \<open>The \<open>$set\<close> document of a CANCEL (\<open>order_update\<close> at lines 200-207).\<close>

record cancel_update =
  c_status :: string
  c_cancelledAt :: pyval
  c_cancelReason :: string
  c_tokenReturned :: string
  c_amountReturned :: rat
  c_lastUpdated :: int

datatype set_doc = Set_match match_update | Set_cancel cancel_update

text \<open>
  An entry of the queue \<open>order_updates\<close>. \<open>Upsert oid d\<close> is the entry with filter
  \<open>{orderId: oid}\<close>, update \<open>{$setOnInsert: d}\<close> and \<open>upsert = True\<close>;
  \<open>Update oid acct u\<close> is the entry with filter \<open>{orderId: oid}\<close> (and
  \<open>account: a\<close> when \<open>acct = Some a\<close>), update \<open>{$set: u}\<close> and \<open>upsert = False\<close>.
\<close>

datatype order_update =
    Upsert string order
  | Update string "string option" set_doc

fun upsert :: "order_update \<Rightarrow> bool" where
  "upsert (Upsert oid d) = True"
| "upsert (Update oid acct u) = False"

section \<open>The store and the event processor's queues\<close>

text \<open>
  A document of an event collection. \<open>ev_height\<close>, \<open>event_type\<close> and
  \<open>ev_params\<close> (the keys height, event_type and params) are \<open>None\<close> when the
  document has no such key; an absent \<open>blockTime\<close> or \<open>txId\<close> reads as
  \<open>PNone\<close>, as \<open>event.get\<close> does.
\<close>

record raw_event =
  ev_height :: "int option"
  event_type :: "string option"
  ev_params :: "pyval option"
  ev_blockTime :: pyval
  ev_txId :: pyval

datatype write_op =
    W_update_one order_update
  | W_insert_many "trade list"
  | W_set_height int

text \<open>
  \<open>orders\<close> holds the order documents of the orders collection by \<open>orderId\<close> (the
  collection has a unique index on it) and \<open>last_order_height\<close> the value of its
  document \<open>_id = last_order_height\<close>. Every call to the store takes the next entry
  of \<open>faults\<close>: \<open>True\<close> means that the call raises. \<open>oplog\<close> lists the write
  requests the store has served, in order. The three event collections are only
  read. \<open>order_updates\<close> and \<open>trade_inserts\<close> are the queues of the
  \<open>EventProcessor\<close>. The calls of \<open>logger\<close> are not modelled.
\<close>

record indexer =
  orders :: "string \<rightharpoonup> order"
  last_order_height :: "int option"
  trades :: "trade list"
  place_order_events :: "raw_event list"
  match_order_events :: "raw_event list"
  cancel_order_events :: "raw_event list"
  faults :: "bool list"
  oplog :: "write_op list"
  order_updates :: "order_update list"
  trade_inserts :: "trade list"

definition store_call :: "indexer \<Rightarrow> bool \<times> indexer" where
  "store_call s = (case faults s of
       [] \<Rightarrow> (False, s)
     | b # bs \<Rightarrow> (b, s\<lparr>faults := bs\<rparr>))"

text \<open>\<open>orders_collection.find_one({orderId: oid})\<close>.\<close>

definition find_one_order :: "string \<Rightarrow> indexer \<Rightarrow> (py_exc + order option) \<times> indexer" where
  "find_one_order oid s =
     (let (failed, s1) = store_call s
      in if failed then (Inl StoreError, s1) else (Inr (orders s1 oid), s1))"

fun apply_set :: "set_doc \<Rightarrow> order \<Rightarrow> order" where
  "apply_set (Set_match m) ord = ord\<lparr>
       amount := m_amount m,
       filledAmount := m_filledAmount m,
       fillPercentage := m_fillPercentage m,
       averageFillPrice := m_averageFillPrice m,
       totalFillValue := m_totalFillValue m,
       totalDollarValue := m_totalDollarValue m,
       totalFees := m_totalFees m,
       numberOfFills := m_numberOfFills m,
       lastFillTime := m_lastFillTime m,
       lastFillHeight := Some (m_lastFillHeight m),
       status := m_status m,
       lastUpdated := m_lastUpdated m\<rparr>"
| "apply_set (Set_cancel c) ord = ord\<lparr>
       status := c_status c,
       cancelledAt := c_cancelledAt c,
       cancelReason := Some (c_cancelReason c),
       tokenReturned := Some (c_tokenReturned c),
       amountReturned := Some (c_amountReturned c),
       lastUpdated := c_lastUpdated c\<rparr>"

text \<open>
  \<open>orders_collection.update_one\<close> on the order documents: the new documents and
  \<open>matched_count\<close>. With \<open>$setOnInsert\<close> and upsert, a matched document is left as
  it is and an unmatched filter inserts the document.
\<close>

fun update_one :: "order_update \<Rightarrow> (string \<rightharpoonup> order) \<Rightarrow> (string \<rightharpoonup> order) \<times> nat" where
  "update_one (Upsert oid d) os = (case os oid of
       Some ord \<Rightarrow> (os, 1)
     | None \<Rightarrow> (os(oid \<mapsto> d), 0))"
| "update_one (Update oid acct u) os = (case os oid of
       None \<Rightarrow> (os, 0)
     | Some ord \<Rightarrow>
         (if (case acct of None \<Rightarrow> True | Some a \<Rightarrow> account ord = a)
          then (os(oid \<mapsto> apply_set u ord), 1)
          else (os, 0)))"

section \<open>event_processor.py\<close>

definition try_bind :: "'e + 'a \<Rightarrow> ('a \<Rightarrow> 'e + 'b) \<Rightarrow> 'e + 'b" where
  "try_bind m f = (case m of Inl e \<Rightarrow> Inl e | Inr x \<Rightarrow> f x)"

text \<open>Lines 19-59: the conversions of the try block and \<open>order_data\<close>.\<close>

definition place_order_data ::
  "pyenv \<Rightarrow> pyval \<Rightarrow> int \<Rightarrow> pyval \<Rightarrow> pyval \<Rightarrow> py_exc + order" where
  "place_order_data env event_params hgt block_time tx_id =
     try_bind (py_index event_params 0) (\<lambda>p0.
     try_bind (py_index event_params 1) (\<lambda>p1.
     try_bind (py_index event_params 2) (\<lambda>p2.
     try_bind (safe_decimal_to_float env p2) (\<lambda>amt.
     try_bind (py_index event_params 3) (\<lambda>p3.
     try_bind (safe_decimal_to_float env p3) (\<lambda>prc.
     try_bind (py_index event_params 4) (\<lambda>p4.
     try_bind (py_index event_params 5) (\<lambda>order_time.
     try_bind (py_index event_params 6) (\<lambda>p6.
     try_bind (py_index event_params 7) (\<lambda>p7.
     try_bind (safe_decimal_to_float env p7) (\<lambda>dollar_value.
       let is_ask = py_bool p4;
           timestamp = extract_timestamp env order_time
       in Inr \<lparr>
         orderId = py_str env p1,
         account = py_str env p0,
         pair = normalize_pair (py_str env p6),
         originalAmount = amt,
         amount = amt,
         filledAmount = 0,
         price = prc,
         isAsk = is_ask,
         orderType = (if is_ask then ''ask'' else ''bid''),
         orderTime = timestamp,
         height = hgt,
         blockTime = block_time,
         txId = tx_id,
         status = ''active'',
         fillPercentage = 0,
         averageFillPrice = 0,
         totalFillValue = 0,
         totalDollarValue = dollar_value,
         totalFees = 0,
         numberOfFills = 0,
         lastFillTime = PNone,
         lastFillHeight = None,
         createdAt = py_or block_time timestamp,
         lastUpdated = hgt,
         cancelledAt = PNone,
         cancelReason = None,
         tokenReturned = None,
         amountReturned = None\<rparr>)))))))))))"

definition process_place_order_event ::
  "pyenv \<Rightarrow> pyval \<Rightarrow> int \<Rightarrow> pyval \<Rightarrow> pyval \<Rightarrow> indexer \<Rightarrow> indexer" where
  "process_place_order_event env event_params hgt block_time tx_id s =
     (case place_order_data env event_params hgt block_time tx_id of
        Inl e \<Rightarrow> s
      | Inr order_data \<Rightarrow>
          s\<lparr>order_updates := order_updates s @ [Upsert (orderId order_data) order_data]\<rparr>)"

text \<open>The parsed params of a MATCH (lines 76-87).\<close>

record match_event =
  maker :: string
  taker :: string
  match_order_id :: string
  matched_amount :: rat
  matched_price :: rat
  match_is_ask :: bool
  match_pair :: string
  match_dollar_value :: rat
  match_fee :: rat
  match_timestamp :: pyval

definition parse_match :: "pyenv \<Rightarrow> pyval \<Rightarrow> py_exc + match_event" where
  "parse_match env event_params =
     try_bind (py_index event_params 0) (\<lambda>p0.
     try_bind (py_index event_params 1) (\<lambda>p1.
     try_bind (py_index event_params 2) (\<lambda>p2.
     try_bind (py_index event_params 3) (\<lambda>p3.
     try_bind (safe_decimal_to_float env p3) (\<lambda>amt.
     try_bind (py_index event_params 4) (\<lambda>p4.
     try_bind (safe_decimal_to_float env p4) (\<lambda>prc.
     try_bind (py_index event_params 5) (\<lambda>p5.
     try_bind (py_index event_params 6) (\<lambda>order_time.
     try_bind (py_index event_params 7) (\<lambda>p7.
     try_bind (py_index event_params 8) (\<lambda>p8.
     try_bind (safe_decimal_to_float env p8) (\<lambda>dollar_value.
     try_bind (py_index event_params 9) (\<lambda>p9.
     try_bind (safe_decimal_to_float env p9) (\<lambda>fee.
       Inr \<lparr>
         maker = py_str env p0,
         taker = py_str env p1,
         match_order_id = py_str env p2,
         matched_amount = amt,
         matched_price = prc,
         match_is_ask = py_bool p5,
         match_pair = normalize_pair (py_str env p7),
         match_dollar_value = dollar_value,
         match_fee = fee,
         match_timestamp = extract_timestamp env order_time\<rparr>))))))))))))))"

text \<open>Lines 96-139: the new values computed from the order read from the store.\<close>

definition match_order_update :: "order \<Rightarrow> match_event \<Rightarrow> int \<Rightarrow> match_update" where
  "match_order_update existing_order ev hgt =
     (let new_filled_amount = filledAmount existing_order + matched_amount ev;
          new_remaining_amount = originalAmount existing_order - new_filled_amount;
          new_number_of_fills = numberOfFills existing_order + 1;
          current_total_value = totalFillValue existing_order;
          new_total_value = current_total_value + matched_amount ev * matched_price ev;
          new_average_fill_price =
            (if new_filled_amount > 0 then new_total_value / new_filled_amount else 0);
          current_total_dollar_value = totalDollarValue existing_order;
          new_total_dollar_value = current_total_dollar_value + match_dollar_value ev;
          current_total_fees = totalFees existing_order;
          new_total_fees = current_total_fees + match_fee ev;
          original_amount = originalAmount existing_order;
          fill_percentage =
            (if original_amount > 0 then new_filled_amount / original_amount * 100 else 0);
          (new_status, new_remaining_amount') =
            (if new_remaining_amount \<le> 1 / 1000 then (''filled'', 0)
             else if new_filled_amount > 0 then (''partially_filled'', new_remaining_amount)
             else (status existing_order, new_remaining_amount))
      in \<lparr>
         m_amount = new_remaining_amount',
         m_filledAmount = new_filled_amount,
         m_fillPercentage = fill_percentage,
         m_averageFillPrice = new_average_fill_price,
         m_totalFillValue = new_total_value,
         m_totalDollarValue = new_total_dollar_value,
         m_totalFees = new_total_fees,
         m_numberOfFills = new_number_of_fills,
         m_lastFillTime = match_timestamp ev,
         m_lastFillHeight = hgt,
         m_status = new_status,
         m_lastUpdated = hgt\<rparr>)"

definition trade_data :: "match_event \<Rightarrow> int \<Rightarrow> pyval \<Rightarrow> pyval \<Rightarrow> trade" where
  "trade_data ev hgt block_time tx_id = \<lparr>
     t_orderId = match_order_id ev,
     t_pair = match_pair ev,
     t_maker = maker ev,
     t_taker = taker ev,
     t_makerAccount = maker ev,
     t_takerAccount = taker ev,
     t_amount = matched_amount ev,
     t_price = matched_price ev,
     t_dollarValue = match_dollar_value ev,
     t_fee = match_fee ev,
     t_isAsk = match_is_ask ev,
     t_orderType = (if match_is_ask ev then ''ask'' else ''bid''),
     t_tradeTime = match_timestamp ev,
     t_height = hgt,
     t_blockTime = block_time,
     t_txId = tx_id,
     t_tradeValue = matched_amount ev * matched_price ev,
     t_netValue = matched_amount ev * matched_price ev - match_fee ev,
     t_createdAt = py_or block_time (match_timestamp ev)\<rparr>"

definition process_match_order_event ::
  "pyenv \<Rightarrow> pyval \<Rightarrow> int \<Rightarrow> pyval \<Rightarrow> pyval \<Rightarrow> indexer \<Rightarrow> indexer" where
  "process_match_order_event env event_params hgt block_time tx_id s =
     (case parse_match env event_params of
        Inl e \<Rightarrow> s
      | Inr ev \<Rightarrow>
          (case find_one_order (match_order_id ev) s of
             (Inl e, s1) \<Rightarrow> s1
           | (Inr None, s1) \<Rightarrow> s1
           | (Inr (Some existing_order), s1) \<Rightarrow>
               s1\<lparr>order_updates := order_updates s1 @
                     [Update (match_order_id ev) None
                        (Set_match (match_order_update existing_order ev hgt))],
                  trade_inserts := trade_inserts s1 @ [trade_data ev hgt block_time tx_id]\<rparr>))"

text \<open>The parsed params of a CANCEL (lines 180-183).\<close>

record cancel_event =
  cancel_account :: string
  cancel_order_id :: string
  token_returned :: string
  amount_returned :: rat

definition parse_cancel :: "pyenv \<Rightarrow> pyval \<Rightarrow> py_exc + cancel_event" where
  "parse_cancel env event_params =
     try_bind (py_index event_params 0) (\<lambda>p0.
     try_bind (py_index event_params 1) (\<lambda>p1.
     try_bind (py_index event_params 2) (\<lambda>p2.
     try_bind (py_index event_params 3) (\<lambda>p3.
     try_bind (safe_decimal_to_float env p3) (\<lambda>amt.
       Inr \<lparr>
         cancel_account = py_str env p0,
         cancel_order_id = py_str env p1,
         token_returned = py_str env p2,
         amount_returned = amt\<rparr>)))))"

definition cancel_order_update :: "pyenv \<Rightarrow> cancel_event \<Rightarrow> int \<Rightarrow> pyval \<Rightarrow> cancel_update" where
  "cancel_order_update env ev hgt block_time = \<lparr>
     c_status = ''cancelled'',
     c_cancelledAt = py_or block_time (utcnow env),
     c_cancelReason = ''user_cancelled'',
     c_tokenReturned = token_returned ev,
     c_amountReturned = amount_returned ev,
     c_lastUpdated = hgt\<rparr>"

definition process_cancel_order_event ::
  "pyenv \<Rightarrow> pyval \<Rightarrow> int \<Rightarrow> pyval \<Rightarrow> pyval \<Rightarrow> indexer \<Rightarrow> indexer" where
  "process_cancel_order_event env event_params hgt block_time tx_id s =
     (case parse_cancel env event_params of
        Inl e \<Rightarrow> s
      | Inr ev \<Rightarrow>
          (case find_one_order (cancel_order_id ev) s of
             (Inl e, s1) \<Rightarrow> s1
           | (Inr None, s1) \<Rightarrow> s1
           | (Inr (Some existing_order), s1) \<Rightarrow>
               (if account existing_order \<noteq> cancel_account ev then s1
                else s1\<lparr>order_updates := order_updates s1 @
                       [Update (cancel_order_id ev) (Some (cancel_account ev))
                          (Set_cancel (cancel_order_update env ev hgt block_time))]\<rparr>)))"

text \<open>
  The loop of lines 225-238: an update that raises leaves the earlier ones written.
  Both branches of the test on \<open>upsert\<close> call \<open>update_one\<close> with the entry's
  filter, update and upsert flag; they differ in the warning logged when nothing
  matched.
\<close>

fun apply_order_updates :: "order_update list \<Rightarrow> indexer \<Rightarrow> py_exc option \<times> indexer" where
  "apply_order_updates [] s = (None, s)"
| "apply_order_updates (u # us) s =
     (let (failed, s1) = store_call s
      in if failed then (Some StoreError, s1)
         else apply_order_updates us
                (s1\<lparr>orders := fst (update_one u (orders s1)),
                    oplog := oplog s1 @ [W_update_one u]\<rparr>))"

text \<open>\<open>trades_collection.insert_many(trade_inserts)\<close>.\<close>

definition insert_many :: "trade list \<Rightarrow> indexer \<Rightarrow> py_exc option \<times> indexer" where
  "insert_many ts s =
     (let (failed, s1) = store_call s
      in if failed then (Some StoreError, s1)
         else (None, s1\<lparr>trades := trades s1 @ ts, oplog := oplog s1 @ [W_insert_many ts]\<rparr>))"

text \<open>The result is the exception re-raised at line 251, if any, and the state reached.\<close>

definition execute_batch_updates :: "indexer \<Rightarrow> py_exc option \<times> indexer" where
  "execute_batch_updates s =
     (case (if order_updates s \<noteq> []
            then (case apply_order_updates (order_updates s) s of
                    (Some e, s1) \<Rightarrow> (Some e, s1)
                  | (None, s1) \<Rightarrow> (None, s1\<lparr>order_updates := []\<rparr>))
            else (None, s)) of
        (Some e, s1) \<Rightarrow> (Some e, s1)
      | (None, s1) \<Rightarrow>
          (if trade_inserts s1 \<noteq> []
           then (case insert_many (trade_inserts s1) s1 of
                   (Some e, s2) \<Rightarrow> (Some e, s2)
                 | (None, s2) \<Rightarrow> (None, s2\<lparr>trade_inserts := []\<rparr>))
           else (None, s1)))"


section \<open>database.py\<close>

definition get_last_processed_height :: "indexer \<Rightarrow> int \<times> indexer" where
  "get_last_processed_height s =
     (let (failed, s1) = store_call s
      in if failed then (0, s1)
         else (case last_order_height s1 of None \<Rightarrow> (0, s1) | Some v \<Rightarrow> (v, s1)))"

definition update_last_processed_height :: "int \<Rightarrow> indexer \<Rightarrow> indexer" where
  "update_last_processed_height hgt s =
     (let (failed, s1) = store_call s
      in if failed then s1
         else s1\<lparr>last_order_height := Some hgt, oplog := oplog s1 @ [W_set_height hgt]\<rparr>)"

definition height_key :: "raw_event \<Rightarrow> int" where
  "height_key e = (case ev_height e of Some h \<Rightarrow> h | None \<Rightarrow> 0)"

text \<open>
  \<open>find({height: {$gt: last}}).sort(height, 1)\<close> on an event collection; documents
  of one height keep the order of the collection.
\<close>

definition find_events :: "raw_event list \<Rightarrow> int \<Rightarrow> raw_event list" where
  "find_events coll last_height =
     sort_key height_key
       (filter (\<lambda>e. case ev_height e of Some h \<Rightarrow> h > last_height | None \<Rightarrow> False) coll)"

record fetched =
  place_orders :: "raw_event list"
  match_orders :: "raw_event list"
  cancel_orders :: "raw_event list"

text \<open>A find that raises leaves the lists not yet assigned empty (lines 62-90).\<close>

definition fetch_events :: "int \<Rightarrow> indexer \<Rightarrow> fetched \<times> indexer" where
  "fetch_events last_height s =
     (let events = \<lparr>place_orders = [], match_orders = [], cancel_orders = []\<rparr>;
          (failed1, s1) = store_call s
      in if failed1 then (events, s1)
         else
           let events1 = events\<lparr>place_orders := find_events (place_order_events s1) last_height\<rparr>;
               (failed2, s2) = store_call s1
           in if failed2 then (events1, s2)
              else
                let events2 = events1\<lparr>match_orders :=
                                find_events (match_order_events s2) last_height\<rparr>;
                    (failed3, s3) = store_call s2
                in if failed3 then (events2, s3)
                   else (events2\<lparr>cancel_orders :=
                           find_events (cancel_order_events s3) last_height\<rparr>, s3))"

section \<open>main_processor.py\<close>

text \<open>
  \<open>events_by_height\<close> is a \<open>defaultdict(list)\<close>: an association list in insertion
  order, read through \<open>dict_get\<close>; the keys of a dict are distinct.
\<close>

type_synonym events_dict = "(int \<times> raw_event list) list"

definition dict_get :: "events_dict \<Rightarrow> int \<Rightarrow> raw_event list" where
  "dict_get d h = (case map_of d h of Some es \<Rightarrow> es | None \<Rightarrow> [])"

fun dict_append :: "int \<Rightarrow> raw_event \<Rightarrow> events_dict \<Rightarrow> events_dict" where
  "dict_append h e [] = [(h, [e])]"
| "dict_append h e ((k, es) # d) =
     (if k = h then (k, es @ [e]) # d else (k, es) # dict_append h e d)"

text \<open>One of the three loops of lines 28-46.\<close>

fun organize :: "string \<Rightarrow> raw_event list \<Rightarrow> events_dict \<Rightarrow> events_dict" where
  "organize ty [] d = d"
| "organize ty (e # es) d = (case ev_height e of
       None \<Rightarrow> organize ty es d
     | Some h \<Rightarrow> organize ty es (dict_append h (e\<lparr>event_type := Some ty\<rparr>) d))"

definition fetch_and_organize_events :: "int \<Rightarrow> indexer \<Rightarrow> events_dict \<times> indexer" where
  "fetch_and_organize_events last_height s =
     (let (events, s1) = fetch_events last_height s;
          d1 = organize ''PLACE_ORDER'' (place_orders events) [];
          d2 = organize ''MATCH_ORDER'' (match_orders events) d1;
          d3 = organize ''CANCEL_ORDER'' (cancel_orders events) d2
      in (d3, s1))"

text \<open>\<open>event_priority.get(x.get('event_type'), 999)\<close>.\<close>

definition event_priority :: "raw_event \<Rightarrow> nat" where
  "event_priority x =
     (if event_type x = Some ''PLACE_ORDER'' then 0
      else if event_type x = Some ''MATCH_ORDER'' then 1
      else if event_type x = Some ''CANCEL_ORDER'' then 2
      else 999)"

text \<open>\<open>events.sort(key = ...)\<close>: Python's sort is stable, as \<open>sort_key\<close> is.\<close>

definition sort_events :: "raw_event list \<Rightarrow> raw_event list" where
  "sort_events events = sort_key event_priority events"

text \<open>\<open>sorted(events_by_height.keys())\<close>; \<open>remdups\<close> reads the keys of the dict.\<close>

definition sorted_heights :: "events_dict \<Rightarrow> int list" where
  "sorted_heights d = sort (remdups (map fst d))"

text \<open>The body of the loop over the events of one height (lines 65-95).\<close>

definition process_event :: "pyenv \<Rightarrow> int \<Rightarrow> raw_event \<Rightarrow> indexer \<Rightarrow> indexer" where
  "process_event env hgt event s =
     (let event_params = (case ev_params event of None \<Rightarrow> PList [] | Some p \<Rightarrow> p);
          block_time = ev_blockTime event;
          tx_id = ev_txId event
      in if event_type event = Some ''PLACE_ORDER'' then
           (if \<not> fst (validate_place_order_params env event_params) then s
            else process_place_order_event env event_params hgt block_time tx_id s)
         else if event_type event = Some ''MATCH_ORDER'' then
           (if \<not> fst (validate_match_order_params env event_params) then s
            else process_match_order_event env event_params hgt block_time tx_id s)
         else if event_type event = Some ''CANCEL_ORDER'' then
           (if \<not> fst (validate_cancel_order_params env event_params) then s
            else process_cancel_order_event env event_params hgt block_time tx_id s)
         else s)"

fun process_events :: "pyenv \<Rightarrow> int \<Rightarrow> raw_event list \<Rightarrow> indexer \<Rightarrow> indexer" where
  "process_events env hgt [] s = s"
| "process_events env hgt (event # events) s =
     process_events env hgt events (process_event env hgt event s)"

text \<open>One round of the loop over the heights (lines 53-101).\<close>

definition process_height ::
  "pyenv \<Rightarrow> int \<Rightarrow> raw_event list \<Rightarrow> indexer \<Rightarrow> py_exc option \<times> indexer" where
  "process_height env hgt events s =
     (case execute_batch_updates (process_events env hgt (sort_events events) s) of
        (Some e, s1) \<Rightarrow> (Some e, s1)
      | (None, s1) \<Rightarrow> (None, update_last_processed_height hgt s1))"

fun process_heights ::
  "pyenv \<Rightarrow> int list \<Rightarrow> events_dict \<Rightarrow> indexer \<Rightarrow> py_exc option \<times> indexer" where
  "process_heights env [] d s = (None, s)"
| "process_heights env (h # hs) d s =
     (case process_height env h (dict_get d h) s of
        (Some e, s1) \<Rightarrow> (Some e, s1)
      | (None, s1) \<Rightarrow> process_heights env hs d s1)"

definition process_events_by_height ::
  "pyenv \<Rightarrow> events_dict \<Rightarrow> indexer \<Rightarrow> py_exc option \<times> indexer" where
  "process_events_by_height env events_by_height s =
     process_heights env (sorted_heights events_by_height) events_by_height s"

text \<open>
  Lines 112-125 of \<open>run\<close>: from the read of the last processed height to the
  processing of the fetched events. Connecting, index creation, the statistics
  and closing the connection are left out.
\<close>

definition run :: "pyenv \<Rightarrow> indexer \<Rightarrow> py_exc option \<times> indexer" where
  "run env s =
     (let (last_height, s1) = get_last_processed_height s;
          (events_by_height, s2) = fetch_and_organize_events last_height s1
      in if events_by_height = [] then (None, s2)
         else process_events_by_height env events_by_height s2)"

section \<open>Concrete inputs\<close>

text \<open>
  The scenario of the specification: account a places the bid o1 for 100 at price 2 on
  the pair X/Y at height 10; at height 11 a MATCH fills 40 of it at price 2.1.
\<close>

definition env0 :: pyenv where
  "env0 = \<lparr>float_of_str = (\<lambda>s. if s = ''2.1'' then Some (21 / 10) else None),
           str_of_obj = (\<lambda>v. ''object''),
           utcnow = PStr ''now''\<rparr>"

definition place_params0 :: pyval where
  "place_params0 = PList [PStr ''a'', PStr ''o1'', PInt 100, PNum 2, PBool False,
      PStr ''t0'', PStr ''X/Y'', PInt 200]"

definition match_params0 :: pyval where
  "match_params0 = PList [PStr ''b'', PStr ''a'', PStr ''o1'', PInt 40, PStr ''2.1'',
      PBool False, PStr ''t1'', PStr ''X/Y'', PInt 84, PNum (1 / 10)]"

definition cancel_params0 :: pyval where
  "cancel_params0 = PList [PStr ''a'', PStr ''o1'', PStr ''Y'', PInt 120]"

definition match_event0 :: match_event where
  "match_event0 = \<lparr>maker = ''b'', taker = ''a'', match_order_id = ''o1'',
      matched_amount = 40, matched_price = 21 / 10, match_is_ask = False,
      match_pair = ''X-Y'', match_dollar_value = 84, match_fee = 1 / 10,
      match_timestamp = PStr ''t1''\<rparr>"

definition cancel_event0 :: cancel_event where
  "cancel_event0 = \<lparr>cancel_account = ''a'', cancel_order_id = ''o1'',
      token_returned = ''Y'', amount_returned = 120\<rparr>"

definition order0 :: order where
  "order0 = \<lparr>orderId = ''o1'', account = ''a'', pair = ''X-Y'', originalAmount = 100,
      amount = 100, filledAmount = 0, price = 2, isAsk = False, orderType = ''bid'',
      orderTime = PStr ''t0'', height = 10, blockTime = PNone, txId = PNone,
      status = ''active'', fillPercentage = 0, averageFillPrice = 0, totalFillValue = 0,
      totalDollarValue = 200, totalFees = 0, numberOfFills = 0, lastFillTime = PNone,
      lastFillHeight = None, createdAt = PStr ''t0'', lastUpdated = 10, cancelledAt = PNone,
      cancelReason = None, tokenReturned = None, amountReturned = None\<rparr>"

definition store0 :: indexer where
  "store0 = \<lparr>orders = Map.empty, last_order_height = None, trades = [],
      place_order_events = [], match_order_events = [], cancel_order_events = [],
      faults = [], oplog = [], order_updates = [], trade_inserts = []\<rparr>"

definition store1 :: indexer where
  "store1 = store0\<lparr>orders := [''o1'' \<mapsto> order0], last_order_height := Some 10\<rparr>"



definition place_raw0 :: raw_event where
  "place_raw0 = \<lparr>ev_height = Some 10, event_type = Some ''PLACE_ORDER'',
      ev_params = Some place_params0, ev_blockTime = PNone, ev_txId = PNone\<rparr>"

definition match_raw0 :: raw_event where
  "match_raw0 = \<lparr>ev_height = Some 11, event_type = Some ''MATCH_ORDER'',
      ev_params = Some match_params0, ev_blockTime = PNone, ev_txId = PNone\<rparr>"







text \<open>
  Stores for the failure scenarios. \<open>store_replay\<close>: o1 is stored, height 10 is
  recorded as processed and the read of the last processed height raises.
  \<open>store_wfail\<close>: an empty store whose sixth call, the write of the last
  processed height, raises. \<open>store_ufail\<close>: an empty store whose first call
  raises.
\<close>

definition store_replay :: indexer where
  "store_replay = store1\<lparr>place_order_events := [place_raw0], faults := [True]\<rparr>"





section \<open>Auxiliary definitions\<close>

text \<open>
  What one event adds to the two queues when no call to the store raises, given the
  order documents \<open>os\<close> of the store; the updates and trades one height queues;
  the effect of writing a list of queued updates; and the persisted part of a state.
\<close>

definition event_entries ::
  "pyenv \<Rightarrow> int \<Rightarrow> (string \<rightharpoonup> order) \<Rightarrow> raw_event \<Rightarrow> order_update list \<times> trade list" where
  "event_entries env hgt os e =
     (let event_params = (case ev_params e of None \<Rightarrow> PList [] | Some p \<Rightarrow> p)
      in if event_type e = Some ''PLACE_ORDER'' then
           (if \<not> fst (validate_place_order_params env event_params) then ([], [])
            else case place_order_data env event_params hgt (ev_blockTime e) (ev_txId e) of
                   Inl x \<Rightarrow> ([], [])
                 | Inr d \<Rightarrow> ([Upsert (orderId d) d], []))
         else if event_type e = Some ''MATCH_ORDER'' then
           (if \<not> fst (validate_match_order_params env event_params) then ([], [])
            else case parse_match env event_params of
                   Inl x \<Rightarrow> ([], [])
                 | Inr ev \<Rightarrow> (case os (match_order_id ev) of
                       None \<Rightarrow> ([], [])
                     | Some ex \<Rightarrow>
                         ([Update (match_order_id ev) None
                             (Set_match (match_order_update ex ev hgt))],
                          [trade_data ev hgt (ev_blockTime e) (ev_txId e)])))
         else if event_type e = Some ''CANCEL_ORDER'' then
           (if \<not> fst (validate_cancel_order_params env event_params) then ([], [])
            else case parse_cancel env event_params of
                   Inl x \<Rightarrow> ([], [])
                 | Inr ev \<Rightarrow> (case os (cancel_order_id ev) of
                       None \<Rightarrow> ([], [])
                     | Some ex \<Rightarrow>
                         (if account ex \<noteq> cancel_account ev then ([], [])
                          else ([Update (cancel_order_id ev) (Some (cancel_account ev))
                                   (Set_cancel (cancel_order_update env ev hgt (ev_blockTime e)))],
                                []))))
         else ([], []))"

definition write_all :: "order_update list \<Rightarrow> (string \<rightharpoonup> order) \<Rightarrow> (string \<rightharpoonup> order)" where
  "write_all us os = foldl (\<lambda>os u. fst (update_one u os)) os us"

definition persisted :: "indexer \<Rightarrow> (string \<rightharpoonup> order) \<times> trade list \<times> int option" where
  "persisted s = (orders s, trades s, last_order_height s)"

definition height_updates ::
  "pyenv \<Rightarrow> int \<Rightarrow> (string \<rightharpoonup> order) \<Rightarrow> raw_event list \<Rightarrow> order_update list" where
  "height_updates env hgt os es =
     concat (map (\<lambda>e. fst (event_entries env hgt os e)) (sort_events es))"

definition height_trades ::
  "pyenv \<Rightarrow> int \<Rightarrow> (string \<rightharpoonup> order) \<Rightarrow> raw_event list \<Rightarrow> trade list" where
  "height_trades env hgt os es =
     concat (map (\<lambda>e. snd (event_entries env hgt os e)) (sort_events es))"

text \<open>
  The last processed height after the write requests \<open>ops\<close>, starting from
  \<open>w0\<close>: the value of the last watermark write served, if any.
\<close>

definition watermark_of :: "write_op list \<Rightarrow> int option \<Rightarrow> int option" where
  "watermark_of ops w0 =
     foldl (\<lambda>w x. case x of W_set_height h \<Rightarrow> Some h | _ \<Rightarrow> w) w0 ops"












section \<open>Auxiliary facts\<close>

lemmas value_defs = try_bind_def py_index_def safe_decimal_to_float_def py_str_def
  py_bool_def py_or_def normalize_pair_def extract_timestamp_def Let_def

lemma parse_match0: "parse_match env0 match_params0 = Inr match_event0"
  by (simp add: parse_match_def match_params0_def match_event0_def env0_def value_defs)

lemma parse_cancel0: "parse_cancel env0 cancel_params0 = Inr cancel_event0"
  by (simp add: parse_cancel_def cancel_params0_def cancel_event0_def env0_def value_defs)

lemma place_order_data0: "place_order_data env0 place_params0 10 PNone PNone = Inr order0"
  by (simp add: place_order_data_def place_params0_def order0_def env0_def value_defs)

lemma find_one_order_store1: "find_one_order ''o1'' store1 = (Inr (Some order0), store1)"
  by (simp add: find_one_order_def store_call_def store1_def store0_def)

lemma store_call_eq:
  "store_call s = (case faults s of [] \<Rightarrow> False | b # bs \<Rightarrow> b, s\<lparr>faults := tl (faults s)\<rparr>)"
  by (simp add: store_call_def split: list.splits)

lemma find_one_order_state:
  "find_one_order oid s = (r, s1) \<Longrightarrow> s1 = s\<lparr>faults := tl (faults s)\<rparr>"
  by (auto simp: find_one_order_def store_call_eq split: if_splits)











lemma store_call_no_faults: "faults s = [] \<Longrightarrow> store_call s = (False, s)"
  by (simp add: store_call_def)

lemma find_one_order_no_faults:
  "faults s = [] \<Longrightarrow> find_one_order oid s = (Inr (orders s oid), s)"
  by (simp add: find_one_order_def store_call_no_faults)

lemma process_place_entries:
  "process_place_order_event env p hgt bt tx s =
     s\<lparr>order_updates := order_updates s @
         (case place_order_data env p hgt bt tx of Inl x \<Rightarrow> [] | Inr d \<Rightarrow> [Upsert (orderId d) d])\<rparr>"
  by (simp add: process_place_order_event_def split: sum.splits)

lemma process_match_no_faults:
  "faults s = [] \<Longrightarrow>
   process_match_order_event env p hgt bt tx s =
     (case parse_match env p of
        Inl x \<Rightarrow> s
      | Inr ev \<Rightarrow> (case orders s (match_order_id ev) of
           None \<Rightarrow> s
         | Some ex \<Rightarrow>
             s\<lparr>order_updates := order_updates s @
                   [Update (match_order_id ev) None (Set_match (match_order_update ex ev hgt))],
                trade_inserts := trade_inserts s @ [trade_data ev hgt bt tx]\<rparr>))"
  by (simp add: process_match_order_event_def find_one_order_no_faults
           split: sum.splits option.splits)

lemma process_cancel_no_faults:
  "faults s = [] \<Longrightarrow>
   process_cancel_order_event env p hgt bt tx s =
     (case parse_cancel env p of
        Inl x \<Rightarrow> s
      | Inr ev \<Rightarrow> (case orders s (cancel_order_id ev) of
           None \<Rightarrow> s
         | Some ex \<Rightarrow>
             (if account ex \<noteq> cancel_account ev then s
              else s\<lparr>order_updates := order_updates s @
                   [Update (cancel_order_id ev) (Some (cancel_account ev))
                      (Set_cancel (cancel_order_update env ev hgt bt))]\<rparr>)))"
  by (simp add: process_cancel_order_event_def find_one_order_no_faults
           split: sum.splits option.splits)

lemma process_event_no_faults:
  assumes "faults s = []"
  shows "process_event env hgt e s =
     s\<lparr>order_updates := order_updates s @ fst (event_entries env hgt (orders s) e),
       trade_inserts := trade_inserts s @ snd (event_entries env hgt (orders s) e)\<rparr>"
proof -
  consider (place) "event_type e = Some ''PLACE_ORDER''"
    | (match) "event_type e = Some ''MATCH_ORDER''"
    | (cancel) "event_type e = Some ''CANCEL_ORDER''"
    | (other) "event_type e \<noteq> Some ''PLACE_ORDER''" "event_type e \<noteq> Some ''MATCH_ORDER''"
        "event_type e \<noteq> Some ''CANCEL_ORDER''"
    by blast
  then show ?thesis
  proof cases
    case place
    then show ?thesis
      by (simp add: process_event_def event_entries_def process_place_entries Let_def
               split: sum.splits)
  next
    case match
    then show ?thesis
      by (simp add: process_event_def event_entries_def process_match_no_faults [OF assms]
               Let_def split: sum.splits option.splits)
  next
    case cancel
    then show ?thesis
      by (simp add: process_event_def event_entries_def process_cancel_no_faults [OF assms]
               Let_def split: sum.splits option.splits)
  next
    case other
    then show ?thesis
      by (simp add: process_event_def event_entries_def Let_def)
  qed
qed

lemma process_events_no_faults:
  "faults s = [] \<Longrightarrow>
   process_events env hgt es s =
     s\<lparr>order_updates := order_updates s
          @ concat (map (\<lambda>e. fst (event_entries env hgt (orders s) e)) es),
       trade_inserts := trade_inserts s
          @ concat (map (\<lambda>e. snd (event_entries env hgt (orders s) e)) es)\<rparr>"
proof (induction es arbitrary: s)
  case Nil
  then show ?case by simp
next
  case (Cons e es)
  then show ?case by (simp add: process_event_no_faults)
qed

lemma apply_order_updates_no_faults:
  "faults s = [] \<Longrightarrow>
   apply_order_updates us s =
     (None, s\<lparr>orders := write_all us (orders s),
              oplog := oplog s @ map W_update_one us\<rparr>)"
proof (induction us arbitrary: s)
  case Nil
  then show ?case by (simp add: write_all_def)
next
  case (Cons u us)
  then show ?case by (simp add: store_call_no_faults write_all_def)
qed

lemma execute_batch_updates_no_faults:
  "faults s = [] \<Longrightarrow>
   execute_batch_updates s =
     (None, s\<lparr>orders := write_all (order_updates s) (orders s),
              trades := trades s @ trade_inserts s,
              oplog := oplog s @ map W_update_one (order_updates s)
                 @ (if trade_inserts s = [] then [] else [W_insert_many (trade_inserts s)]),
              order_updates := [],
              trade_inserts := []\<rparr>)"
  by (auto simp: execute_batch_updates_def apply_order_updates_no_faults insert_many_def
      store_call_no_faults write_all_def)

lemma update_last_processed_height_no_faults:
  "faults s = [] \<Longrightarrow>
   update_last_processed_height hgt s =
     s\<lparr>last_order_height := Some hgt, oplog := oplog s @ [W_set_height hgt]\<rparr>"
  by (simp add: update_last_processed_height_def store_call_no_faults)

lemma process_height_no_faults:
  assumes "faults s = []" and "order_updates s = []" and "trade_inserts s = []"
  shows "process_height env hgt es s =
     (None, s\<lparr>orders := write_all (height_updates env hgt (orders s) es) (orders s),
              trades := trades s @ height_trades env hgt (orders s) es,
              last_order_height := Some hgt,
              oplog := oplog s @ map W_update_one (height_updates env hgt (orders s) es)
                 @ (if height_trades env hgt (orders s) es = [] then []
                    else [W_insert_many (height_trades env hgt (orders s) es)])
                 @ [W_set_height hgt]\<rparr>)"
  using assms
  by (simp add: process_height_def process_events_no_faults execute_batch_updates_no_faults
      update_last_processed_height_no_faults height_updates_def height_trades_def)

lemma upsert_twice:
  "fst (update_one (Upsert oid d) (fst (update_one (Upsert oid d) os)))
     = fst (update_one (Upsert oid d) os)"
  by (cases "os oid") simp_all

lemma upsert_keeps:
  "os k = Some ex \<Longrightarrow> fst (update_one (Upsert oid d) os) k = Some ex"
  by (cases "os oid") auto

lemma place_entries_cases:
  assumes "event_type e = Some ''PLACE_ORDER''"
  shows "event_entries env hgt os e = ([], [])
       \<or> (\<exists>d. event_entries env hgt os e = ([Upsert (orderId d) d], []))"
  using assms by (auto simp: event_entries_def Let_def split: sum.splits)

lemma place_entries_store:
  assumes "event_type e = Some ''PLACE_ORDER''"
  shows "event_entries env hgt os e = event_entries env hgt os' e"
  using assms by (simp add: event_entries_def Let_def)

lemma sort_events_single: "sort_events [e] = [e]"
  by (simp add: sort_events_def)






lemma watermark_of_Nil: "watermark_of [] w = w"
  by (simp add: watermark_of_def)

lemma store_call_frame:
  "store_call s = (b, s1) \<Longrightarrow> s1 = s\<lparr>faults := tl (faults s)\<rparr>"
  by (auto simp: store_call_eq)















lemma fetch_events_no_faults:
  "faults s = [] \<Longrightarrow>
   fetch_events last_height s =
     (\<lparr>place_orders = find_events (place_order_events s) last_height,
       match_orders = find_events (match_order_events s) last_height,
       cancel_orders = find_events (cancel_order_events s) last_height\<rparr>, s)"
  by (simp add: fetch_events_def store_call_no_faults)


lemma validate_place0: "fst (validate_place_order_params env0 place_params0)"
  by (simp add: validate_place_order_params_def place_checks_def place_params0_def
      env0_def safe_decimal_to_float_def py_str_def)

lemma place_raw0_entries:
  "event_entries env0 10 os (place_raw0\<lparr>event_type := Some ''PLACE_ORDER''\<rparr>)
     = ([Upsert ''o1'' order0], [])"
  by (simp add: event_entries_def place_raw0_def validate_place0 place_order_data0 Let_def
      order0_def)

lemma find_events_place0: "find_events [place_raw0] 0 = [place_raw0]"
  by (simp add: find_events_def place_raw0_def)

lemma find_events_Nil: "find_events [] l = []"
  by (simp add: find_events_def)

lemma ev_height_place0: "ev_height place_raw0 = Some 10"
  by (simp add: place_raw0_def)

lemma sorted_heights_single: "sorted_heights [(h, es)] = [h]"
  by (simp add: sorted_heights_def)
























lemma validate_match0: "fst (validate_match_order_params env0 match_params0)"
  by (simp add: validate_match_order_params_def match_checks_def match_params0_def
      env0_def safe_decimal_to_float_def py_str_def)

lemma place_raw0_entries_plain:
  "event_entries env0 10 os place_raw0 = ([Upsert ''o1'' order0], [])"
  by (simp add: event_entries_def place_raw0_def validate_place0 place_order_data0 Let_def
      order0_def)



















section \<open>The state computed by a MATCH\<close>



section \<open>The remaining amount\<close>




section \<open>Events that reference an existing order\<close>




section \<open>The order of processing\<close>




text \<open>
  The handlers queue their writes, and the MATCH handler reads the store before the
  queue of its height is written: a MATCH for an order placed at the same height is
  handled after the PLACE, finds no order, and queues nothing.
\<close>

lemma match_at_the_height_of_its_place:
  "orders (snd (process_height env0 10 [match_raw0, place_raw0] store0)) ''o1'' = Some order0
   \<and> trades (snd (process_height env0 10 [match_raw0, place_raw0] store0)) = []"
proof -
  have f: "faults store0 = []" "order_updates store0 = []" "trade_inserts store0 = []"
    by (simp_all add: store0_def)
  have s: "sort_events [match_raw0, place_raw0] = [place_raw0, match_raw0]"
    by (simp add: sort_events_def event_priority_def match_raw0_def place_raw0_def)
  have m: "event_entries env0 10 (orders store0) match_raw0 = ([], [])"
    by (simp add: event_entries_def match_raw0_def validate_match0 parse_match0 Let_def
        match_event0_def store0_def)
  have u: "height_updates env0 10 (orders store0) [match_raw0, place_raw0]
      = [Upsert ''o1'' order0]"
    and t: "height_trades env0 10 (orders store0) [match_raw0, place_raw0] = []"
    by (simp_all add: height_updates_def height_trades_def s m place_raw0_entries_plain)
  have o: "orders store0 ''o1'' = None" and tr: "trades store0 = []"
    by (simp_all add: store0_def)
  show ?thesis
    unfolding process_height_no_faults [OF f] u t
    by (simp add: write_all_def o tr)
qed

section \<open>Commit of one height before the next\<close>



section \<open>PLACE is insert-if-absent\<close>

text \<open>
  C6. With a store that raises no error and empty queues, processing a height that
  holds the same PLACE event twice leaves the same orders, trades and last processed
  height as processing it once; processing the height again after it has been
  processed changes none of them; and every order that was in the store before is
  still there with all its fields.
\<close>

theorem place_twice_is_place_once:
  assumes "event_type e = Some ''PLACE_ORDER''" and "faults s = []"
    and "order_updates s = []" and "trade_inserts s = []"
  shows "persisted (snd (process_height env hgt [e, e] s))
           = persisted (snd (process_height env hgt [e] s))
       \<and> persisted (snd (process_height env hgt [e] (snd (process_height env hgt [e] s))))
           = persisted (snd (process_height env hgt [e] s))
       \<and> (\<forall>oid ex. orders s oid = Some ex \<longrightarrow>
             orders (snd (process_height env hgt [e] s)) oid = Some ex)"
proof -
  note ph = process_height_no_faults [OF assms(2-4)]
  define q where "q = fst (event_entries env hgt (orders s) e)"
  define s1 where "s1 = snd (process_height env hgt [e] s)"
  define s2 where "s2 = snd (process_height env hgt [e, e] s)"
  define s3 where "s3 = snd (process_height env hgt [e] s1)"
  from place_entries_cases [OF assms(1), of env hgt "orders s"]
  have q: "q = [] \<or> (\<exists>d. q = [Upsert (orderId d) d])"
    and t: "snd (event_entries env hgt (orders s) e) = []"
    by (auto simp: q_def)
  have p1: "persisted s1 = (write_all q (orders s), trades s, Some hgt)"
    unfolding s1_def ph
    by (simp add: persisted_def height_updates_def height_trades_def sort_events_def q_def t)
  have p2: "persisted s2 = (write_all (q @ q) (orders s), trades s, Some hgt)"
    unfolding s2_def ph
    by (simp add: persisted_def height_updates_def height_trades_def sort_events_def q_def t)
  have f1: "faults s1 = []" "order_updates s1 = []" "trade_inserts s1 = []"
    unfolding s1_def ph using assms by simp_all
  have q1: "fst (event_entries env hgt (orders s1) e) = q"
    and t1: "snd (event_entries env hgt (orders s1) e) = []"
    using place_entries_store [OF assms(1), of env hgt "orders s1" "orders s"] t
    by (simp_all add: q_def)
  have p3: "persisted s3 = (write_all q (orders s1), trades s1, Some hgt)"
    unfolding s3_def process_height_no_faults [OF f1]
    by (simp add: persisted_def height_updates_def height_trades_def sort_events_def q1 t1)
  have o1: "orders s1 = write_all q (orders s)" and tr1: "trades s1 = trades s"
    using p1 by (simp_all add: persisted_def)
  have twice: "write_all q (write_all q (orders s)) = write_all q (orders s)"
    using q
  proof
    assume "q = []"
    then show ?thesis by (simp add: write_all_def)
  next
    assume "\<exists>d. q = [Upsert (orderId d) d]"
    then obtain d where "q = [Upsert (orderId d) d]" ..
    then show ?thesis
      using upsert_twice [of "orderId d" d "orders s"] by (simp add: write_all_def)
  qed
  have app: "write_all (q @ q) (orders s) = write_all q (write_all q (orders s))"
    by (simp add: write_all_def)
  have keeps: "\<forall>oid ex. orders s oid = Some ex \<longrightarrow> write_all q (orders s) oid = Some ex"
    using q
  proof
    assume "q = []"
    then show ?thesis by (simp add: write_all_def)
  next
    assume "\<exists>d. q = [Upsert (orderId d) d]"
    then obtain d where "q = [Upsert (orderId d) d]" ..
    then show ?thesis
      using upsert_keeps [of "orders s" _ _ "orderId d" d] by (simp add: write_all_def)
  qed
  have a: "persisted s2 = persisted s1"
    by (simp only: p1 p2 app twice)
  have b: "persisted s3 = persisted s1"
    by (simp only: p1 p3 o1 tr1 twice)
  have c: "\<forall>oid ex. orders s oid = Some ex \<longrightarrow> orders s1 oid = Some ex"
    using keeps by (simp only: o1)
  from a b c show ?thesis
    unfolding s1_def s2_def s3_def by blast
qed

theorem place_twice_is_place_once_witness:
  "event_type place_raw0 = Some ''PLACE_ORDER'' \<and> faults store1 = []
   \<and> order_updates store1 = [] \<and> trade_inserts store1 = []
   \<and> orders store1 ''o1'' = Some order0
   \<and> persisted (snd (process_height env0 10 [place_raw0, place_raw0] store1))
        = persisted (snd (process_height env0 10 [place_raw0] store1))
   \<and> orders (snd (process_height env0 10 [place_raw0] store1)) ''o1'' = Some order0"
proof -
  have h1: "event_type place_raw0 = Some ''PLACE_ORDER''"
    by (simp add: place_raw0_def)
  have h2: "faults store1 = []" and h3: "order_updates store1 = []"
    and h4: "trade_inserts store1 = []"
    by (simp_all add: store1_def store0_def)
  have h5: "orders store1 ''o1'' = Some order0"
    by (simp add: store1_def store0_def)
  from place_twice_is_place_once [OF h1 h2 h3 h4, of env0 10] h1 h2 h3 h4 h5
  show ?thesis by blast
qed

section \<open>CANCEL events\<close>

text \<open>
  C7. For a CANCEL event whose params parse to \<open>ev\<close> and whose read of the store
  answers \<open>r\<close>: when no order has the event's order id, or the order's account
  differs from the event's account, nothing is queued and the state stays as it is
  (the read has only taken its entry of the fault schedule); otherwise one update is
  queued, filtered by order id and account, which sets exactly status = cancelled,
  cancelledAt, cancelReason = user_cancelled, tokenReturned, amountReturned and
  lastUpdated, so that filledAmount, the remaining amount, totalFillValue, totalFees
  and numberOfFills of the order it is written to stay as they are.
\<close>

theorem cancel_event_outcomes:
  assumes "parse_cancel env event_params = Inr ev"
    and "find_one_order (cancel_order_id ev) s = (Inr r, s1)"
  shows "(r = None \<longrightarrow>
            process_cancel_order_event env event_params hgt bt tx s
              = s\<lparr>faults := tl (faults s)\<rparr>)
    \<and> (\<forall>ex. r = Some ex \<and> account ex \<noteq> cancel_account ev \<longrightarrow>
            process_cancel_order_event env event_params hgt bt tx s
              = s\<lparr>faults := tl (faults s)\<rparr>)
    \<and> (\<forall>ex. r = Some ex \<and> account ex = cancel_account ev \<longrightarrow>
          (\<exists>c. process_cancel_order_event env event_params hgt bt tx s
                 = s\<lparr>faults := tl (faults s),
                     order_updates := order_updates s @
                       [Update (cancel_order_id ev) (Some (cancel_account ev)) (Set_cancel c)]\<rparr>
             \<and> (\<forall>ord. apply_set (Set_cancel c) ord
                   = ord\<lparr>status := ''cancelled'',
                         cancelledAt := py_or bt (utcnow env),
                         cancelReason := Some ''user_cancelled'',
                         tokenReturned := Some (token_returned ev),
                         amountReturned := Some (amount_returned ev),
                         lastUpdated := hgt\<rparr>
                 \<and> filledAmount (apply_set (Set_cancel c) ord) = filledAmount ord
                 \<and> amount (apply_set (Set_cancel c) ord) = amount ord
                 \<and> totalFillValue (apply_set (Set_cancel c) ord) = totalFillValue ord
                 \<and> totalFees (apply_set (Set_cancel c) ord) = totalFees ord
                 \<and> numberOfFills (apply_set (Set_cancel c) ord) = numberOfFills ord)))"
proof -
  from assms(2) have s1: "s1 = s\<lparr>faults := tl (faults s)\<rparr>"
    by (rule find_one_order_state)
  have none: "r = None \<longrightarrow>
      process_cancel_order_event env event_params hgt bt tx s = s\<lparr>faults := tl (faults s)\<rparr>"
    using assms s1 by (simp add: process_cancel_order_event_def)
  have other: "\<forall>ex. r = Some ex \<and> account ex \<noteq> cancel_account ev \<longrightarrow>
      process_cancel_order_event env event_params hgt bt tx s = s\<lparr>faults := tl (faults s)\<rparr>"
    using assms s1 by (simp add: process_cancel_order_event_def)
  have owner: "\<forall>ex. r = Some ex \<and> account ex = cancel_account ev \<longrightarrow>
      process_cancel_order_event env event_params hgt bt tx s
        = s\<lparr>faults := tl (faults s),
            order_updates := order_updates s @
              [Update (cancel_order_id ev) (Some (cancel_account ev))
                 (Set_cancel (cancel_order_update env ev hgt bt))]\<rparr>"
    using assms s1 by (simp add: process_cancel_order_event_def)
  have sets: "\<forall>ord. apply_set (Set_cancel (cancel_order_update env ev hgt bt)) ord
                   = ord\<lparr>status := ''cancelled'',
                         cancelledAt := py_or bt (utcnow env),
                         cancelReason := Some ''user_cancelled'',
                         tokenReturned := Some (token_returned ev),
                         amountReturned := Some (amount_returned ev),
                         lastUpdated := hgt\<rparr>
                 \<and> filledAmount (apply_set (Set_cancel (cancel_order_update env ev hgt bt)) ord)
                     = filledAmount ord
                 \<and> amount (apply_set (Set_cancel (cancel_order_update env ev hgt bt)) ord)
                     = amount ord
                 \<and> totalFillValue (apply_set (Set_cancel (cancel_order_update env ev hgt bt)) ord)
                     = totalFillValue ord
                 \<and> totalFees (apply_set (Set_cancel (cancel_order_update env ev hgt bt)) ord)
                     = totalFees ord
                 \<and> numberOfFills (apply_set (Set_cancel (cancel_order_update env ev hgt bt)) ord)
                     = numberOfFills ord"
    by (simp add: cancel_order_update_def)
  from none other owner sets show ?thesis by blast
qed

theorem cancel_event_outcomes_witness:
  "parse_cancel env0 cancel_params0 = Inr cancel_event0
   \<and> find_one_order (cancel_order_id cancel_event0) store1 = (Inr (Some order0), store1)
   \<and> account order0 = cancel_account cancel_event0
   \<and> (\<exists>c. process_cancel_order_event env0 cancel_params0 12 PNone PNone store1
             = store1\<lparr>faults := tl (faults store1),
                 order_updates := order_updates store1 @
                   [Update (cancel_order_id cancel_event0)
                      (Some (cancel_account cancel_event0)) (Set_cancel c)]\<rparr>
         \<and> status (apply_set (Set_cancel c) order0) = ''cancelled''
         \<and> filledAmount (apply_set (Set_cancel c) order0) = filledAmount order0
         \<and> amount (apply_set (Set_cancel c) order0) = amount order0)"
proof -
  have h1: "parse_cancel env0 cancel_params0 = Inr cancel_event0"
    by (rule parse_cancel0)
  have h2: "find_one_order (cancel_order_id cancel_event0) store1
              = (Inr (Some order0), store1)"
    by (simp add: cancel_event0_def find_one_order_store1)
  have h3: "account order0 = cancel_account cancel_event0"
    by (simp add: order0_def cancel_event0_def)
  from cancel_event_outcomes [OF h1 h2, of 12 PNone PNone] h3
  obtain c where c: "process_cancel_order_event env0 cancel_params0 12 PNone PNone store1
             = store1\<lparr>faults := tl (faults store1),
                 order_updates := order_updates store1 @
                   [Update (cancel_order_id cancel_event0)
                      (Some (cancel_account cancel_event0)) (Set_cancel c)]\<rparr>"
     and "\<forall>ord. apply_set (Set_cancel c) ord
                   = ord\<lparr>status := ''cancelled'',
                         cancelledAt := py_or PNone (utcnow env0),
                         cancelReason := Some ''user_cancelled'',
                         tokenReturned := Some (token_returned cancel_event0),
                         amountReturned := Some (amount_returned cancel_event0),
                         lastUpdated := 12\<rparr>"
    by blast
  then have "status (apply_set (Set_cancel c) order0) = ''cancelled''"
    and "filledAmount (apply_set (Set_cancel c) order0) = filledAmount order0"
    and "amount (apply_set (Set_cancel c) order0) = amount order0"
    by simp_all
  with c h1 h2 h3 show ?thesis by blast
qed

section \<open>The validators\<close>



section \<open>Failures of the store\<close>




section \<open>Reading the last processed height\<close>

text \<open>
  C10. When the read of the last processed height raises, the result is 0, as it is
  when the document is absent, and nothing is raised: the run goes on with the events
  fetched from height 0, that is (when the fetches raise nothing) every event of the
  three collections with a height above 0, whatever height the store has recorded
  as processed.
\<close>

theorem watermark_read_failure:
  assumes "faults s = True # fs"
  shows "get_last_processed_height s = (0, s\<lparr>faults := fs\<rparr>)
       \<and> get_last_processed_height (s\<lparr>faults := [], last_order_height := None\<rparr>)
           = (0, s\<lparr>faults := [], last_order_height := None\<rparr>)
       \<and> run env s = (case fetch_and_organize_events 0 (s\<lparr>faults := fs\<rparr>) of
                         (d, s2) \<Rightarrow> if d = [] then (None, s2)
                                    else process_events_by_height env d s2)
       \<and> (fs = [] \<longrightarrow>
            fetch_events 0 (s\<lparr>faults := fs\<rparr>) =
              (\<lparr>place_orders = find_events (place_order_events s) 0,
                match_orders = find_events (match_order_events s) 0,
                cancel_orders = find_events (cancel_order_events s) 0\<rparr>, s\<lparr>faults := fs\<rparr>))"
proof -
  have g: "get_last_processed_height s = (0, s\<lparr>faults := fs\<rparr>)"
    using assms by (simp add: get_last_processed_height_def store_call_def)
  have r: "run env s = (case fetch_and_organize_events 0 (s\<lparr>faults := fs\<rparr>) of
                         (d, s2) \<Rightarrow> if d = [] then (None, s2)
                                    else process_events_by_height env d s2)"
    by (simp add: run_def g)
  have f: "fs = [] \<longrightarrow>
            fetch_events 0 (s\<lparr>faults := fs\<rparr>) =
              (\<lparr>place_orders = find_events (place_order_events s) 0,
                match_orders = find_events (match_order_events s) 0,
                cancel_orders = find_events (cancel_order_events s) 0\<rparr>, s\<lparr>faults := fs\<rparr>)"
    by (simp add: fetch_events_no_faults)
  have n: "get_last_processed_height (s\<lparr>faults := [], last_order_height := None\<rparr>)
           = (0, s\<lparr>faults := [], last_order_height := None\<rparr>)"
    by (simp add: get_last_processed_height_def store_call_def)
  from g n r f show ?thesis by blast
qed

theorem watermark_read_failure_witness:
  "faults store_replay = [True]
   \<and> last_order_height store_replay = Some 10
   \<and> get_last_processed_height store_replay = (0, store_replay\<lparr>faults := []\<rparr>)
   \<and> oplog (snd (run env0 store_replay)) = [W_update_one (Upsert ''o1'' order0), W_set_height 10]"
proof -
  have h: "faults store_replay = [True]" and w: "last_order_height store_replay = Some 10"
    by (simp_all add: store_replay_def store1_def store0_def)
  note t = watermark_read_failure [OF h, of env0]
  define s where "s = store_replay\<lparr>faults := []\<rparr>"
  have fs: "faults s = []" "order_updates s = []" "trade_inserts s = []" "oplog s = []"
    "place_order_events s = [place_raw0]" "match_order_events s = []" "cancel_order_events s = []"
    by (simp_all add: s_def store_replay_def store1_def store0_def)
  have fo: "fetch_and_organize_events 0 s
      = ([(10, [place_raw0\<lparr>event_type := Some ''PLACE_ORDER''\<rparr>])], s)"
    by (simp add: fetch_and_organize_events_def fetch_events_no_faults fs find_events_place0
        ev_height_place0 find_events_Nil)
  have "oplog (snd (run env0 store_replay)) = [W_update_one (Upsert ''o1'' order0), W_set_height 10]"
    using t
    by (simp add: s_def [symmetric] fo process_events_by_height_def sorted_heights_single
        dict_get_def process_height_no_faults fs height_updates_def height_trades_def
        sort_events_single place_raw0_entries)
  with t h w show ?thesis by simp
qed

end
